theory Spec2Isabelle
  imports Complex_Main "HOL-Library.AList"
begin

section \<open>Python values seen by \<open>ipywidgets/widgets/interaction.py\<close>\<close>

text \<open>
  Numbers. \<open>numbers.Integral\<close> covers \<open>bool\<close> and \<open>int\<close>; every other
  \<open>numbers.Real\<close> is represented by an exact rational, which is what
  \<open>fractions.Fraction\<close> computes. Binary floating point rounding (and the overflow of
  \<open>int / int\<close> for huge integers) is not part of this model: \<open>/\<close> is exact.
\<close>

datatype num = NBool bool | NInt int | NFrac rat

datatype numtype = TBool | TInt | TFrac

fun num_type :: "num \<Rightarrow> numtype" where
  "num_type (NBool b) = TBool"
| "num_type (NInt i) = TInt"
| "num_type (NFrac q) = TFrac"

text \<open>\<open>isinstance(v, t)\<close> for a numeric class \<open>t\<close>: \<open>bool\<close> is a subclass of \<open>int\<close>.\<close>

definition isinstance_num :: "num \<Rightarrow> numtype \<Rightarrow> bool" where
  "isinstance_num v t = (num_type v = t \<or> (num_type v = TBool \<and> t = TInt))"

fun is_Integral :: "num \<Rightarrow> bool" where
  "is_Integral (NBool b) = True"
| "is_Integral (NInt i) = True"
| "is_Integral (NFrac q) = False"

fun as_int :: "num \<Rightarrow> int" where
  "as_int (NBool b) = (if b then 1 else 0)"
| "as_int (NInt i) = i"
| "as_int (NFrac q) = (if 0 \<le> q then \<lfloor>q\<rfloor> else \<lceil>q\<rceil>)"

fun as_rat :: "num \<Rightarrow> rat" where
  "as_rat (NBool b) = (if b then 1 else 0)"
| "as_rat (NInt i) = of_int i"
| "as_rat (NFrac q) = q"

text \<open>
  Arithmetic as Python does it: two integrals give an \<open>int\<close> (also \<open>bool + bool\<close>),
  anything else the non-integral type. With \<open>from __future__ import division\<close> the
  operator \<open>/\<close> is true division and never gives an \<open>int\<close>.
\<close>

definition num_add :: "num \<Rightarrow> num \<Rightarrow> num" where
  "num_add a b = (if is_Integral a \<and> is_Integral b then NInt (as_int a + as_int b)
                  else NFrac (as_rat a + as_rat b))"

definition num_sub :: "num \<Rightarrow> num \<Rightarrow> num" where
  "num_sub a b = (if is_Integral a \<and> is_Integral b then NInt (as_int a - as_int b)
                  else NFrac (as_rat a - as_rat b))"

definition num_mul :: "num \<Rightarrow> num \<Rightarrow> num" where
  "num_mul a b = (if is_Integral a \<and> is_Integral b then NInt (as_int a * as_int b)
                  else NFrac (as_rat a * as_rat b))"

definition num_neg :: "num \<Rightarrow> num" where
  "num_neg a = (if is_Integral a then NInt (- as_int a) else NFrac (- as_rat a))"

definition num_truediv :: "num \<Rightarrow> num \<Rightarrow> num" where
  "num_truediv a b = NFrac (as_rat a / as_rat b)"

definition num_floordiv :: "num \<Rightarrow> num \<Rightarrow> num" where
  "num_floordiv a b = (if is_Integral a \<and> is_Integral b then NInt (as_int a div as_int b)
                       else NInt \<lfloor>as_rat a / as_rat b\<rfloor>)"

text \<open>\<open>int(x)\<close> truncates towards zero.\<close>

definition num_int :: "num \<Rightarrow> num" where
  "num_int a = NInt (as_int a)"

definition num_less :: "num \<Rightarrow> num \<Rightarrow> bool" where
  "num_less a b = (as_rat a < as_rat b)"

definition num_le :: "num \<Rightarrow> num \<Rightarrow> bool" where
  "num_le a b = (as_rat a \<le> as_rat b)"

definition num_eq :: "num \<Rightarrow> num \<Rightarrow> bool" where
  "num_eq a b = (as_rat a = as_rat b)"

text \<open>
  The classes of widgets the module tells apart with \<open>isinstance\<close>. A widget built by
  the caller may be of any class; \<open>OtherValueWidget d\<close> is a \<open>ValueWidget\<close> of a class
  the module does not name, a \<open>DOMWidget\<close> iff \<open>d\<close>. \<open>Fixed\<close> is the module's own
  class \<open>fixed\<close>, a \<open>HasTraits\<close> that is neither a \<open>ValueWidget\<close> nor a
  \<open>DOMWidget\<close>.
\<close>

datatype wclass = Text | Checkbox | IntSlider | FloatSlider | Dropdown
  | OtherValueWidget bool | Fixed

text \<open>
  Values and widgets. A \<open>dict\<close> and any other \<open>Mapping\<close> are association lists in
  iteration order; \<open>PIterable\<close> is an iterable that is none of the other shapes (a
  generator, a set), given by the elements it yields; \<open>PObject\<close> is an opaque object
  that is not iterable. A widget records the keyword arguments it was constructed with
  (absent ones are \<open>None\<close>: the toolkit's own default), its description, and the
  attribute \<open>_kwarg\<close> once the module has set it.
\<close>

datatype pyval =
    PNone
  | PStr string
  | PNum num
  | PTuple "pyval list"
  | PList "pyval list"
  | PDict "(pyval \<times> pyval) list"
  | PMapping "(pyval \<times> pyval) list"
  | PIterable "pyval list"
  | PWidget widget
  | PObject nat
and widget =
    Widget (w_cls: wclass) (w_value: "pyval option") (w_min: "pyval option")
      (w_max: "pyval option") (w_step: "pyval option") (w_options: "pyval option")
      (w_description: string) (w_kwarg: "string option")

datatype verr =
    MaxNotGreaterThanMin
  | UnableToInferRange
  | StepNotPositive
  | CannotFindAbbreviation string
  | CannotTransform

text \<open>
  Exceptions. \<open>KeyboardInterrupt\<close> and \<open>SystemExit\<close> derive from
  \<open>BaseException\<close> only, so \<open>except Exception\<close> does not handle them.
\<close>

datatype pyexc =
    ValueError verr
  | TypeError string
  | AttributeError string
  | ZeroDivisionError
  | OtherException string
  | KeyboardInterrupt
  | SystemExit

fun is_Exception :: "pyexc \<Rightarrow> bool" where
  "is_Exception KeyboardInterrupt = False"
| "is_Exception SystemExit = False"
| "is_Exception e = True"

fun is_Real :: "pyval \<Rightarrow> bool" where
  "is_Real (PNum n) = True"
| "is_Real v = False"

fun is_Integral_val :: "pyval \<Rightarrow> bool" where
  "is_Integral_val (PNum n) = is_Integral n"
| "is_Integral_val v = False"

section \<open>Helpers of the module\<close>

text \<open>\<open>_matches(o, pattern)\<close>: the lengths agree and every element is of its kind.\<close>

definition matches :: "pyval list \<Rightarrow> (pyval \<Rightarrow> bool) list \<Rightarrow> bool" where
  "matches o' pattern =
     (if \<not> length o' = length pattern then False
      else list_all (\<lambda>(obj, kind). kind obj) (zip o' pattern))"

text \<open>
  \<open>_get_min_max_value(min, max, value=None, step=None)\<close>. Absent arguments are
  \<open>PNone\<close>. Comparing or subtracting something that is not a number raises
  \<open>TypeError\<close> in Python; both callers pass numbers only. The function is written in
  two parts: the \<open>if\<close>/\<open>elif\<close>/\<open>else\<close> chain that infers the range and the
  value, then the block under \<open>if step is not None\<close>.
\<close>

definition infer_min_max_value ::
    "pyval \<Rightarrow> pyval \<Rightarrow> pyval \<Rightarrow> pyexc + (num \<times> num \<times> num)" where
  "infer_min_max_value mn mx val =
     (case val of
        PNone \<Rightarrow>
          (case (mn, mx) of
             (PNum a, PNum b) \<Rightarrow>
               if \<not> num_less a b then Inl (ValueError MaxNotGreaterThanMin)
               else
                 let diff = num_sub b a;
                     v = num_add a (num_truediv diff (NInt 2));
                     v = (if \<not> isinstance_num v (num_type diff)
                          then num_add a (num_floordiv diff (NInt 2)) else v)
                 in Inr (a, b, v)
           | _ \<Rightarrow> Inl (TypeError ''unorderable types''))
      | _ \<Rightarrow>
          if mn = PNone \<and> mx = PNone then
            (case val of
               PNum v \<Rightarrow>
                 if num_eq v (NInt 0) then Inr (v, num_add v (NInt 1), v)
                 else if num_less (NInt 0) v then Inr (num_neg v, num_mul (NInt 3) v, v)
                 else Inr (num_mul (NInt 3) v, num_neg v, v)
             | _ \<Rightarrow> Inl (TypeError ''expected a real number''))
          else Inl (ValueError UnableToInferRange))"

definition get_min_max_value ::
    "pyval \<Rightarrow> pyval \<Rightarrow> pyval \<Rightarrow> pyval \<Rightarrow> pyexc + (num \<times> num \<times> num)" where
  "get_min_max_value mn mx val step =
     (case infer_min_max_value mn mx val of
        Inl e \<Rightarrow> Inl e
      | Inr (a, b, v) \<Rightarrow>
          (case step of
             PNone \<Rightarrow> Inr (a, b, v)
           | PNum s \<Rightarrow>
               if num_eq s (NInt 0) then Inl ZeroDivisionError
               else
                 let tick = num_int (num_truediv (num_sub v a) s)
                 in Inr (a, b, num_add a (num_mul tick s))
           | _ \<Rightarrow> Inl (TypeError ''unsupported operand'')))"

section \<open>The control factory\<close>

text \<open>\<open>cls(value=value, min=min, max=max)\<close> and the same with \<open>step=step\<close>.\<close>

definition slider :: "wclass \<Rightarrow> num \<Rightarrow> num \<Rightarrow> num \<Rightarrow> pyval option \<Rightarrow> widget" where
  "slider c v a b st = Widget c (Some (PNum v)) (Some (PNum a)) (Some (PNum b)) st None [] None"

text \<open>\<open>interactive.widget_from_tuple\<close>; a tuple of another shape falls off the end
  of the function, which returns \<open>None\<close>.\<close>

definition widget_from_tuple :: "pyval list \<Rightarrow> pyexc + widget option" where
  "widget_from_tuple o' =
     (if matches o' [is_Real, is_Real] then
        (case get_min_max_value (o' ! 0) (o' ! 1) PNone PNone of
           Inl e \<Rightarrow> Inl e
         | Inr (a, b, v) \<Rightarrow>
             let c = (if list_all is_Integral_val o' then IntSlider else FloatSlider)
             in Inr (Some (slider c v a b None)))
      else if matches o' [is_Real, is_Real, is_Real] then
        (let step = o' ! 2 in
         if (case step of PNum s \<Rightarrow> num_le s (NInt 0) | _ \<Rightarrow> False)
         then Inl (ValueError StepNotPositive)
         else
           (case get_min_max_value (o' ! 0) (o' ! 1) PNone step of
              Inl e \<Rightarrow> Inl e
            | Inr (a, b, v) \<Rightarrow>
                let c = (if list_all is_Integral_val o' then IntSlider else FloatSlider)
                in Inr (Some (slider c v a b (Some step)))))
      else Inr None)"

text \<open>\<open>interactive.widget_from_single_value\<close>: string, then \<open>bool\<close>, then
  \<open>Integral\<close>, then \<open>Real\<close>.\<close>

definition widget_from_single_value :: "pyval \<Rightarrow> pyexc + widget option" where
  "widget_from_single_value o' =
     (case o' of
        PStr s \<Rightarrow> Inr (Some (Widget Text (Some (PStr s)) None None None None [] None))
      | PNum (NBool b) \<Rightarrow>
          Inr (Some (Widget Checkbox (Some (PNum (NBool b))) None None None None [] None))
      | PNum n \<Rightarrow>
          (case get_min_max_value PNone PNone o' PNone of
             Inl e \<Rightarrow> Inl e
           | Inr (a, b, v) \<Rightarrow>
               Inr (Some (slider (if is_Integral n then IntSlider else FloatSlider)
                            n a b None)))
      | _ \<Rightarrow> Inr None)"

text \<open>
  \<open>interactive.widget_from_iterable\<close>: a \<open>list\<close> or \<open>dict\<close> is handed to
  \<open>Dropdown\<close> as it is, another \<open>Mapping\<close> as \<open>list(o.items())\<close>, any other
  iterable as \<open>list(o)\<close>. The constructor is given no \<open>value\<close>.
\<close>

definition dropdown :: "pyval \<Rightarrow> widget" where
  "dropdown opts = Widget Dropdown None None None None (Some opts) [] None"

definition items :: "(pyval \<times> pyval) list \<Rightarrow> pyval list" where
  "items kvs = map (\<lambda>(k, v). PTuple [k, v]) kvs"

fun is_Iterable :: "pyval \<Rightarrow> bool" where
  "is_Iterable (PStr s) = True"
| "is_Iterable (PTuple xs) = True"
| "is_Iterable (PList xs) = True"
| "is_Iterable (PDict kvs) = True"
| "is_Iterable (PMapping kvs) = True"
| "is_Iterable (PIterable xs) = True"
| "is_Iterable v = False"

text \<open>\<open>list(o)\<close> for an iterable: a mapping iterates over its keys.\<close>

fun list_of :: "pyval \<Rightarrow> pyval list" where
  "list_of (PStr s) = map (\<lambda>c. PStr [c]) s"
| "list_of (PTuple xs) = xs"
| "list_of (PList xs) = xs"
| "list_of (PDict kvs) = map fst kvs"
| "list_of (PMapping kvs) = map fst kvs"
| "list_of (PIterable xs) = xs"
| "list_of v = []"

definition widget_from_iterable :: "pyval \<Rightarrow> widget" where
  "widget_from_iterable o' =
     (case o' of
        PList xs \<Rightarrow> dropdown o'
      | PDict kvs \<Rightarrow> dropdown o'
      | PMapping kvs \<Rightarrow> dropdown (PList (items kvs))
      | _ \<Rightarrow> dropdown (PList (list_of o')))"

text \<open>
  The toolkit behind the widgets is not part of the module; what the module needs of it
  is a parameter. \<open>assign_value w v\<close> is the assignment \<open>w.value = v\<close> on a
  \<open>ValueWidget\<close>: the value the trait stores, or \<open>None\<close> when the assignment raises.
  \<open>interact_value w\<close> is \<open>ValueWidget.get_interact_value\<close>.
\<close>

record toolkit =
  assign_value :: "widget \<Rightarrow> pyval \<Rightarrow> pyval option"
  interact_value :: "widget \<Rightarrow> pyexc + pyval"

fun with_value :: "widget \<Rightarrow> pyval option \<Rightarrow> widget" where
  "with_value (Widget c v a b s opts d k) v' = Widget c v' a b s opts d k"

fun with_description :: "widget \<Rightarrow> string \<Rightarrow> widget" where
  "with_description (Widget c v a b s opts d k) d' = Widget c v a b s opts d' k"

fun with_kwarg :: "widget \<Rightarrow> string \<Rightarrow> widget" where
  "with_kwarg (Widget c v a b s opts d k) k' = Widget c v a b s opts d (Some k')"

text \<open>
  \<open>try: widget.value = default; except Exception: pass\<close>. On \<open>None\<close> (a tuple that
  \<open>widget_from_tuple\<close> did not recognise) the assignment raises
  \<open>AttributeError\<close>, which is swallowed as well.
\<close>

definition try_set_default :: "toolkit \<Rightarrow> widget option \<Rightarrow> pyval \<Rightarrow> widget option" where
  "try_set_default tk w d =
     (case w of
        None \<Rightarrow> None
      | Some w' \<Rightarrow>
          (case assign_value tk w' d of
             None \<Rightarrow> Some w'
           | Some v \<Rightarrow> Some (with_value w' (Some v))))"

text \<open>
  \<open>interactive.widget_from_abbrev(abbrev, default=empty)\<close>; \<open>Parameter.empty\<close> is
  \<open>None\<close> of the option type. Every widget value of the model is a \<open>ValueWidget\<close> or a
  \<open>fixed\<close>, so the first test is the constructor test.
\<close>

definition widget_from_abbrev :: "toolkit \<Rightarrow> pyval \<Rightarrow> pyval option \<Rightarrow> pyexc + widget option" where
  "widget_from_abbrev tk abbrev dflt =
     (case abbrev of
        PWidget w \<Rightarrow> Inr (Some w)
      | PTuple xs \<Rightarrow>
          (case widget_from_tuple xs of
             Inl e \<Rightarrow> Inl e
           | Inr widget \<Rightarrow>
               (case dflt of
                  None \<Rightarrow> Inr widget
                | Some d \<Rightarrow> Inr (try_set_default tk widget d)))
      | _ \<Rightarrow>
          (case widget_from_single_value abbrev of
             Inl e \<Rightarrow> Inl e
           | Inr (Some widget) \<Rightarrow> Inr (Some widget)
           | Inr None \<Rightarrow>
               if is_Iterable abbrev then
                 (let widget = Some (widget_from_iterable abbrev) in
                  case dflt of
                    None \<Rightarrow> Inr widget
                  | Some d \<Rightarrow> Inr (try_set_default tk widget d))
               else Inr None))"

section \<open>The abbreviation resolver\<close>

datatype param_kind =
  POSITIONAL_ONLY | POSITIONAL_OR_KEYWORD | VAR_POSITIONAL | KEYWORD_ONLY | VAR_KEYWORD

text \<open>An \<open>inspect.Parameter\<close>; an absent annotation or default (\<open>Parameter.empty\<close>)
  is \<open>None\<close>.\<close>

record param =
  param_name :: string
  param_kind :: param_kind
  param_annotation :: "pyval option"
  param_default :: "pyval option"

text \<open>The keyword arguments \<open>**kwargs\<close>: a \<open>dict\<close> with string keys, in insertion
  order.\<close>

type_synonym kwargs = "(string \<times> pyval) list"

text \<open>
  \<open>_yield_abbreviations_for_parameter(param, kwargs)\<close>, a generator that mutates
  \<open>kwargs\<close>: the model returns what it yields and the dictionary it leaves. After
  \<open>yield not_found\<close> the only consumer raises, so the generator is never resumed and
  nothing follows \<open>not_found\<close>.
\<close>

definition yield_abbreviations_for_parameter ::
    "param \<Rightarrow> kwargs \<Rightarrow> (string \<times> pyval option \<times> pyval option) list \<times> kwargs" where
  "yield_abbreviations_for_parameter p kw =
     (let name = param_name p;
          kind = param_kind p;
          ann = param_annotation p;
          dflt = param_default p;
          not_found = (name, None, None)
      in
        if kind = POSITIONAL_OR_KEYWORD \<or> kind = KEYWORD_ONLY then
          (case map_of kw name of
             Some v \<Rightarrow> ([(name, Some v, dflt)], AList.delete name kw)
           | None \<Rightarrow>
               (case ann of
                  Some a \<Rightarrow> ([(name, Some a, dflt)], kw)
                | None \<Rightarrow>
                    (case dflt of
                       Some d \<Rightarrow> ([(name, Some d, dflt)], kw)
                     | None \<Rightarrow> ([not_found], kw))))
        else if kind = VAR_KEYWORD then
          (map (\<lambda>(k, v). (k, Some v, None)) kw, [])
        else ([], kw))"

text \<open>
  The target function, as far as the module observes it: its \<open>__name__\<close>; the
  parameters of \<open>inspect.signature(f)\<close>, or \<open>None\<close> when that raises
  \<open>ValueError\<close> or \<open>TypeError\<close>; whether \<open>check_argspec(f)\<close> returns (it raises
  \<open>TypeError\<close> otherwise); the exception \<open>getcallargs(f, **named)\<close> raises, if any;
  and the call \<open>f(**kwargs)\<close> itself, which returns a value or raises.
\<close>

record pyfunc =
  f_name :: string
  f_signature :: "param list option"
  f_argspec :: bool
  f_getcallargs :: "kwargs \<Rightarrow> pyexc option"
  f_call :: "kwargs \<Rightarrow> pyexc + pyval"

type_synonym triple = "string \<times> pyval \<times> pyval option"

text \<open>The inner loop of \<open>find_abbreviations\<close>: an empty value raises.\<close>

fun append_abbreviations ::
    "(string \<times> pyval option \<times> pyval option) list \<Rightarrow> triple list
       \<Rightarrow> pyexc + triple list" where
  "append_abbreviations [] new_kwargs = Inr new_kwargs"
| "append_abbreviations ((name, None, dflt) # ys) new_kwargs =
     Inl (ValueError (CannotFindAbbreviation name))"
| "append_abbreviations ((name, Some v, dflt) # ys) new_kwargs =
     append_abbreviations ys (new_kwargs @ [(name, v, dflt)])"

text \<open>The outer loop, over the parameters in declaration order.\<close>

fun find_abbreviations_loop ::
    "param list \<Rightarrow> kwargs \<Rightarrow> triple list \<Rightarrow> pyexc + triple list" where
  "find_abbreviations_loop [] kw new_kwargs = Inr new_kwargs"
| "find_abbreviations_loop (p # ps) kw new_kwargs =
     (case yield_abbreviations_for_parameter p kw of
        (ys, kw') \<Rightarrow>
          (case append_abbreviations ys new_kwargs of
             Inl e \<Rightarrow> Inl e
           | Inr new_kwargs' \<Rightarrow> find_abbreviations_loop ps kw' new_kwargs'))"

definition find_abbreviations :: "pyfunc \<Rightarrow> kwargs \<Rightarrow> pyexc + triple list" where
  "find_abbreviations f kw =
     (case f_signature f of
        None \<Rightarrow> Inr (map (\<lambda>(key, v). (key, v, Some v)) kw)
      | Some ps \<Rightarrow> find_abbreviations_loop ps kw [])"

section \<open>The container\<close>

text \<open>
  \<open>widgets_from_abbreviations\<close>. Besides its result the model returns the widgets the
  factory constructed on the way (those the caller did not pass in ready made), in the
  state the constructor left them, so that what exists when an error is raised can be
  stated.
\<close>

fun is_prebuilt :: "pyval \<Rightarrow> bool" where
  "is_prebuilt (PWidget w) = True"
| "is_prebuilt v = False"

fun widgets_from_abbreviations_loop ::
    "toolkit \<Rightarrow> triple list \<Rightarrow> widget list \<Rightarrow> widget list
       \<Rightarrow> (pyexc + widget list) \<times> widget list" where
  "widgets_from_abbreviations_loop tk [] result made = (Inr result, made)"
| "widgets_from_abbreviations_loop tk ((name, abbrev, dflt) # seq) result made =
     (case widget_from_abbrev tk abbrev dflt of
        Inl e \<Rightarrow> (Inl e, made)
      | Inr None \<Rightarrow> (Inl (ValueError CannotTransform), made)
      | Inr (Some widget) \<Rightarrow>
          let made' = (if is_prebuilt abbrev then made else made @ [widget]);
              widget = (if w_description widget = [] then with_description widget name
                        else widget);
              widget = with_kwarg widget name
          in widgets_from_abbreviations_loop tk seq (result @ [widget]) made')"

definition widgets_from_abbreviations ::
    "toolkit \<Rightarrow> triple list \<Rightarrow> (pyexc + widget list) \<times> widget list" where
  "widgets_from_abbreviations tk seq = widgets_from_abbreviations_loop tk seq [] []"

record button =
  b_description :: string
  b_disabled :: bool

datatype child = ChildWidget widget | ChildButton button | ChildOutput

fun is_DOMWidget :: "widget \<Rightarrow> bool" where
  "is_DOMWidget w = (case w_cls w of Fixed \<Rightarrow> False | OtherValueWidget d \<Rightarrow> d | _ \<Rightarrow> True)"

text \<open>Truth value of an object, for \<open>if self.manual\<close> and \<open>if self.clear_output\<close>.\<close>

fun truthy :: "pyval \<Rightarrow> bool" where
  "truthy PNone = False"
| "truthy (PStr s) = (s \<noteq> [])"
| "truthy (PNum n) = (as_rat n \<noteq> 0)"
| "truthy (PTuple xs) = (xs \<noteq> [])"
| "truthy (PList xs) = (xs \<noteq> [])"
| "truthy (PDict kvs) = (kvs \<noteq> [])"
| "truthy (PMapping kvs) = (kvs \<noteq> [])"
| "truthy v = True"

record interactive =
  self_result :: pyval
  self_args :: "pyval list"
  self_kwargs :: kwargs
  self_f :: pyfunc
  self_clear_output :: pyval
  self_manual :: pyval
  self_kwargs_widgets :: "widget list"
  self_manual_button :: "button option"
  self_children :: "child list"

text \<open>\<open>kwargs.pop(key, default)\<close>.\<close>

definition pop_default :: "string \<Rightarrow> pyval \<Rightarrow> kwargs \<Rightarrow> pyval \<times> kwargs" where
  "pop_default key d kw =
     ((case map_of kw key of Some v \<Rightarrow> v | None \<Rightarrow> d), AList.delete key kw)"

text \<open>The dictionary \<open>{n:v for n,v,_ in new_kwargs}\<close>.\<close>

definition callargs_of :: "triple list \<Rightarrow> kwargs" where
  "callargs_of new_kwargs = foldl (\<lambda>d (n, v, _). AList.update n v d) [] new_kwargs"

text \<open>
  \<open>interactive.__init__(self, __interact_f, **kwargs)\<close>. The second component lists
  what the constructor has built when it returns or raises: the parameter controls made
  by the factory, the trigger button and the output area. Registering \<open>call_f\<close> as a
  handler is the toolkit's business; an event that fires is a run of \<open>call_f\<close>.
\<close>

definition interactive_init ::
    "toolkit \<Rightarrow> pyfunc \<Rightarrow> kwargs \<Rightarrow> (pyexc + interactive) \<times> child list" where
  "interactive_init tk f kwargs0 =
     (case pop_default ''clear_output'' (PNum (NBool True)) kwargs0 of
        (clear, kw1) \<Rightarrow>
     (case pop_default ''__manual'' (PNum (NBool False)) kw1 of
        (manual, kw2) \<Rightarrow>
     (case find_abbreviations f kw2 of
        Inl e \<Rightarrow> (Inl e, [])
      | Inr new_kwargs \<Rightarrow>
     (case (if f_argspec f then f_getcallargs f (callargs_of new_kwargs) else None) of
        Some e \<Rightarrow> (Inl e, [])
      | None \<Rightarrow>
     (case widgets_from_abbreviations tk new_kwargs of
        (Inl e, made) \<Rightarrow> (Inl e, map ChildWidget made)
      | (Inr ws, made) \<Rightarrow>
          let c = map ChildWidget (filter is_DOMWidget ws);
              mb = (if truthy manual
                    then Some \<lparr>b_description = ''Run '' @ f_name f, b_disabled = False\<rparr>
                    else None);
              extra = (case mb of Some b \<Rightarrow> [ChildButton b] | None \<Rightarrow> []) @ [ChildOutput]
          in (Inr \<lparr>self_result = PNone, self_args = [], self_kwargs = [], self_f = f,
                   self_clear_output = clear, self_manual = manual,
                   self_kwargs_widgets = ws, self_manual_button = mb,
                   self_children = c @ extra\<rparr>,
              map ChildWidget made @ extra))))))"

section \<open>The callback\<close>

text \<open>What one run of \<open>call_f\<close> does to its surroundings, in order.\<close>

datatype event =
    SetDisabled bool
  | ClearOutput
  | Invoke kwargs
  | Display pyval
  | ReportException pyexc

text \<open>
  \<open>widget.get_interact_value()\<close>. The class \<open>fixed\<close> of the module derives from
  \<open>HasTraits\<close> and defines \<open>value\<close>, \<open>description\<close> and \<open>__init__\<close> only, so the
  attribute lookup fails on it.
\<close>

definition get_interact_value :: "toolkit \<Rightarrow> widget \<Rightarrow> pyexc + pyval" where
  "get_interact_value tk w =
     (if w_cls w = Fixed then Inl (AttributeError ''get_interact_value'')
      else interact_value tk w)"

text \<open>The loop over \<open>self.kwargs_widgets\<close> that fills \<open>self.kwargs\<close>; it stops at the
  first exception, with the dictionary as filled so far.\<close>

fun collect_values :: "toolkit \<Rightarrow> widget list \<Rightarrow> kwargs \<Rightarrow> pyexc option \<times> kwargs" where
  "collect_values tk [] kw = (None, kw)"
| "collect_values tk (w # ws) kw =
     (case get_interact_value tk w of
        Inl e \<Rightarrow> (Some e, kw)
      | Inr v \<Rightarrow>
          (case w_kwarg w of
             None \<Rightarrow> (Some (AttributeError ''_kwarg''), kw)
           | Some k \<Rightarrow> collect_values tk ws (AList.update k v kw)))"

text \<open>The body of the \<open>try\<close> block: the exception it raises, if any, its events and
  the state it leaves.\<close>

definition call_f_try :: "toolkit \<Rightarrow> interactive \<Rightarrow> pyexc option \<times> event list \<times> interactive" where
  "call_f_try tk s =
     (case collect_values tk (self_kwargs_widgets s) (self_kwargs s) of
        (Some e, kw) \<Rightarrow> (Some e, [], s\<lparr>self_kwargs := kw\<rparr>)
      | (None, kw) \<Rightarrow>
          let s = s\<lparr>self_kwargs := kw\<rparr>;
              evs = (if truthy (self_clear_output s) then [ClearOutput] else []) @ [Invoke kw]
          in (case f_call (self_f s) kw of
                Inl e \<Rightarrow> (Some e, evs, s)
              | Inr r \<Rightarrow>
                  (None, evs @ (if r \<noteq> PNone then [Display r] else []),
                   s\<lparr>self_result := r\<rparr>)))"

text \<open>
  \<open>interactive.call_f(self, *args)\<close>: the exception that leaves the callback, if any,
  the events, and the state afterwards. \<open>self.manual_button\<close> exists only in a
  container built in manual mode.
\<close>

definition set_disabled :: "bool \<Rightarrow> interactive \<Rightarrow> interactive" where
  "set_disabled d s =
     s\<lparr>self_manual_button := map_option (\<lambda>b. b\<lparr>b_disabled := d\<rparr>) (self_manual_button s)\<rparr>"

definition call_f :: "toolkit \<Rightarrow> interactive \<Rightarrow> pyexc option \<times> event list \<times> interactive" where
  "call_f tk s0 =
     (let s = s0\<lparr>self_kwargs := []\<rparr> in
      if truthy (self_manual s) \<and> self_manual_button s = None
      then (Some (AttributeError ''manual_button''), [], s)
      else
        let evs0 = (if truthy (self_manual s) then [SetDisabled True] else []);
            s = (if truthy (self_manual s) then set_disabled True s else s)
        in (case call_f_try tk s of
              (raised, evs1, s) \<Rightarrow>
                let handled = (case raised of None \<Rightarrow> True | Some e \<Rightarrow> is_Exception e);
                    evs2 = (case raised of
                              None \<Rightarrow> []
                            | Some e \<Rightarrow> if is_Exception e then [ReportException e] else []);
                    evs3 = (if truthy (self_manual s) then [SetDisabled False] else []);
                    s = (if truthy (self_manual s) then set_disabled False s else s)
                in (if handled then None else raised, evs0 @ evs1 @ evs2 @ evs3, s)))"

section \<open>What the specification says, for comparison\<close>

text \<open>The midpoint in the specification's words: \<open>(min+max)/2\<close>, with integer
  division when both bounds are integers.\<close>

definition spec_midpoint :: "num \<Rightarrow> num \<Rightarrow> num" where
  "spec_midpoint a b =
     (if is_Integral a \<and> is_Integral b then NInt ((as_int a + as_int b) div 2)
      else NFrac ((as_rat a + as_rat b) / 2))"


text \<open>The resolution order in the specification's words: the override, else the
  annotation, else the declared default.\<close>

definition resolution_priority :: "kwargs \<Rightarrow> param \<Rightarrow> pyval option" where
  "resolution_priority kw p =
     (case map_of kw (param_name p) of
        Some v \<Rightarrow> Some v
      | None \<Rightarrow>
          (case param_annotation p of
             Some a \<Rightarrow> Some a
           | None \<Rightarrow> param_default p))"

definition takes_abbreviation :: "param \<Rightarrow> bool" where
  "takes_abbreviation p =
     (param_kind p = POSITIONAL_OR_KEYWORD \<or> param_kind p = KEYWORD_ONLY)"

definition resolvable :: "kwargs \<Rightarrow> param \<Rightarrow> bool" where
  "resolvable kw p = (\<not> takes_abbreviation p \<or> resolution_priority kw p \<noteq> None)"

text \<open>The value the step block of \<open>_get_min_max_value\<close> computes from the midpoint.\<close>

definition snapped :: "num \<Rightarrow> num \<Rightarrow> num \<Rightarrow> num" where
  "snapped a b s =
     num_add a (num_mul (num_int (num_truediv (num_sub (spec_midpoint a b) a) s)) s)"

text \<open>The events of a run of the callback, and the exception that leaves it.\<close>

definition events_of :: "pyexc option \<times> event list \<times> interactive \<Rightarrow> event list" where
  "events_of r = fst (snd r)"


definition propagated :: "pyexc option \<times> event list \<times> interactive \<Rightarrow> pyexc option" where
  "propagated r = fst r"


section \<open>Concrete collaborators for the examples\<close>

text \<open>
  Modelled from the spec: the control toolkit is not part of the module. Section 4.2
  has a range control reject a value outside its bounds and a choice control reject a
  value that is none of its options; every other assignment is stored. A control
  yields its current value to the callback.
\<close>

fun option_values :: "pyval \<Rightarrow> pyval list" where
  "option_values (PDict kvs) = map snd kvs"
| "option_values (PList xs) = map (\<lambda>x. case x of PTuple [k, v] \<Rightarrow> v | _ \<Rightarrow> x) xs"
| "option_values v = []"

definition in_bounds :: "widget \<Rightarrow> pyval \<Rightarrow> bool" where
  "in_bounds w v =
     (case (v, w_min w, w_max w) of
        (PNum x, Some (PNum a), Some (PNum b)) \<Rightarrow> num_le a x \<and> num_le x b
      | _ \<Rightarrow> False)"

definition spec_toolkit :: toolkit where
  "spec_toolkit =
     \<lparr>assign_value = (\<lambda>w v.
        case w_cls w of
          IntSlider \<Rightarrow> if in_bounds w v then Some v else None
        | FloatSlider \<Rightarrow> if in_bounds w v then Some v else None
        | Dropdown \<Rightarrow>
            if List.member (option_values (case w_options w of Some x \<Rightarrow> x | None \<Rightarrow> PNone)) v
            then Some v else None
        | _ \<Rightarrow> Some v),
      interact_value = (\<lambda>w. Inr (case w_value w of Some v \<Rightarrow> v | None \<Rightarrow> PNone))\<rparr>"

text \<open>
  Modelled from the spec: \<open>inspect.getcallargs\<close> belongs to the standard library, not
  to the module. Section 4.1 has it check that the names can bind: no unexpected name,
  no required parameter left unbound.
\<close>

definition getcallargs :: "param list \<Rightarrow> kwargs \<Rightarrow> pyexc option" where
  "getcallargs ps named =
     (let possible = map param_name
            (filter (\<lambda>p. param_kind p = POSITIONAL_ONLY \<or> takes_abbreviation p) ps);
          varkw = list_ex (\<lambda>p. param_kind p = VAR_KEYWORD) ps;
          required = map param_name
            (filter (\<lambda>p. (param_kind p = POSITIONAL_ONLY \<or> takes_abbreviation p)
                          \<and> param_default p = None) ps)
      in
        if \<not> varkw \<and> list_ex (\<lambda>(n, v). \<not> List.member possible n) named
        then Some (TypeError ''got an unexpected keyword argument'')
        else if list_ex (\<lambda>n. map_of named n = None) required
        then Some (TypeError ''missing required argument'')
        else None)"

text \<open>A function written with \<open>def\<close>: its signature can be inspected, and calling it
  binds the arguments before the body runs.\<close>

definition def_function ::
    "string \<Rightarrow> param list \<Rightarrow> (kwargs \<Rightarrow> pyexc + pyval) \<Rightarrow> pyfunc" where
  "def_function name ps body =
     \<lparr>f_name = name, f_signature = Some ps, f_argspec = True,
      f_getcallargs = getcallargs ps,
      f_call = (\<lambda>kw. case getcallargs ps kw of Some e \<Rightarrow> Inl e | None \<Rightarrow> body kw)\<rparr>"

definition positional :: "string \<Rightarrow> pyval option \<Rightarrow> pyval option \<Rightarrow> param" where
  "positional name ann dflt =
     \<lparr>param_name = name, param_kind = POSITIONAL_OR_KEYWORD,
      param_annotation = ann, param_default = dflt\<rparr>"

text \<open>\<open>def show(x=5): return x\<close>\<close>

definition show_x :: pyfunc where
  "show_x = def_function ''show'' [positional ''x'' None (Some (PNum (NInt 5)))]
     (\<lambda>kw. Inr (case map_of kw ''x'' of Some v \<Rightarrow> v | None \<Rightarrow> PNone))"


text \<open>\<open>def ident(a): return a\<close>\<close>

definition ident_a :: pyfunc where
  "ident_a = def_function ''ident'' [positional ''a'' None None]
     (\<lambda>kw. Inr (case map_of kw ''a'' of Some v \<Rightarrow> v | None \<Rightarrow> PNone))"

text \<open>\<open>def g(a, /, b=1): return b\<close>, with a required positional-only parameter.\<close>

definition posonly_g :: pyfunc where
  "posonly_g = def_function ''g''
     [\<lparr>param_name = ''a'', param_kind = POSITIONAL_ONLY,
       param_annotation = None, param_default = None\<rparr>,
      positional ''b'' None (Some (PNum (NInt 1)))]
     (\<lambda>kw. Inr (case map_of kw ''b'' of Some v \<Rightarrow> v | None \<Rightarrow> PNone))"

text \<open>\<open>def h(a: (0, 10) = 3, b=True, *, c): return None\<close>\<close>

definition three_h :: pyfunc where
  "three_h = def_function ''h''
     [positional ''a'' (Some (PTuple [PNum (NInt 0), PNum (NInt 10)])) (Some (PNum (NInt 3))),
      positional ''b'' None (Some (PNum (NBool True))),
      \<lparr>param_name = ''c'', param_kind = KEYWORD_ONLY,
       param_annotation = None, param_default = None\<rparr>]
     (\<lambda>kw. Inr PNone)"

text \<open>\<open>fixed(v)\<close>: the base class initialiser stores the value; the description is
  the trait's default, the empty string.\<close>

definition fixed :: "pyval \<Rightarrow> pyval" where
  "fixed v = PWidget (Widget Fixed (Some v) None None None None [] None)"



text \<open>What \<open>__init__\<close> passes to \<open>find_abbreviations\<close>: the keyword arguments
  without the two reserved keys.\<close>

definition resolver_kwargs :: "kwargs \<Rightarrow> kwargs" where
  "resolver_kwargs kw = AList.delete ''__manual'' (AList.delete ''clear_output'' kw)"

text \<open>The names under which the controls of a container are bound.\<close>

definition kwarg_names :: "widget list \<Rightarrow> string set" where
  "kwarg_names ws = {k. Some k \<in> w_kwarg ` set ws}"

section \<open>Arithmetic of the range inference\<close>





text \<open>The value the code computes, \<open>min + diff / 2\<close> or \<open>min + diff // 2\<close>, is the
  midpoint of the specification.\<close>

lemma infer_min_max_value_pair:
  "infer_min_max_value (PNum a) (PNum b) PNone =
     (if as_rat a < as_rat b then Inr (a, b, spec_midpoint a b)
      else Inl (ValueError MaxNotGreaterThanMin))"
proof (cases "is_Integral a \<and> is_Integral b")
  case True
  have "as_int a + (as_int b - as_int a) div 2 = (as_int a + as_int b) div 2"
    by presburger
  with True show ?thesis
    by (simp add: infer_min_max_value_def num_less_def num_sub_def num_add_def num_truediv_def
        num_floordiv_def isinstance_num_def spec_midpoint_def Let_def)
next
  case False
  have "as_rat a + (as_rat b - as_rat a) / 2 = (as_rat a + as_rat b) / 2"
    by (simp add: field_simps)
  with False show ?thesis
    by (auto simp add: infer_min_max_value_def num_less_def num_sub_def num_add_def
        num_truediv_def num_floordiv_def isinstance_num_def spec_midpoint_def Let_def)
qed


lemma get_min_max_value_step:
  "get_min_max_value (PNum a) (PNum b) PNone (PNum s) =
     (if \<not> as_rat a < as_rat b then Inl (ValueError MaxNotGreaterThanMin)
      else if as_rat s = 0 then Inl ZeroDivisionError
      else Inr (a, b, snapped a b s))"
  by (simp add: get_min_max_value_def infer_min_max_value_pair snapped_def num_eq_def)




section \<open>The control factory on tuples\<close>


lemma widget_from_tuple_triple:
  "widget_from_tuple [PNum a, PNum b, PNum s] =
     (if as_rat s \<le> 0 then Inl (ValueError StepNotPositive)
      else if \<not> as_rat a < as_rat b then Inl (ValueError MaxNotGreaterThanMin)
      else Inr (Some (slider (if is_Integral a \<and> is_Integral b \<and> is_Integral s
                               then IntSlider else FloatSlider)
                        (snapped a b s) a b (Some (PNum s)))))"
  by (simp add: widget_from_tuple_def matches_def get_min_max_value_step num_le_def)






text \<open>
  C6. A triple of reals whose step is not positive: the factory raises
  \<open>ValueError\<close>, whatever the bounds, the default and the toolkit.
\<close>

theorem nonpositive_step_raises:
  "as_rat s \<le> 0 \<Longrightarrow>
     widget_from_abbrev tk (PTuple [PNum a, PNum b, PNum s]) dflt =
       Inl (ValueError StepNotPositive)"
  by (simp add: widget_from_abbrev_def widget_from_tuple_triple)

theorem nonpositive_step_raises_witness:
  "as_rat (NFrac (- 1 / 2)) \<le> 0
   \<and> widget_from_abbrev spec_toolkit
       (PTuple [PNum (NInt 0), PNum (NInt 10), PNum (NFrac (- 1 / 2))]) (Some (PNum (NInt 5))) =
       Inl (ValueError StepNotPositive)"
  using nonpositive_step_raises [of "NFrac (- 1 / 2)" spec_toolkit "NInt 0" "NInt 10"
      "Some (PNum (NInt 5))"]
  by simp

section \<open>The control factory on iterables\<close>

text \<open>
  C7, as the code has it. A list becomes a choice control whose options are that list,
  in order. A \<open>dict\<close> is handed to the choice control unchanged, as the dictionary it
  is; only a mapping that is not a \<open>dict\<close> is turned into the list of its
  \<open>(name, value)\<close> pairs, in iteration order. A default changes the value at most,
  never the options.
\<close>

lemma try_set_default_Some:
  "\<exists>w'. try_set_default tk (Some w) d = Some w' \<and> w_cls w' = w_cls w
          \<and> w_options w' = w_options w"
  by (cases w) (simp add: try_set_default_def split: option.split)

lemma after_default:
  "\<exists>w. (case dflt of None \<Rightarrow> Inr (Some wd) | Some d \<Rightarrow> Inr (try_set_default tk (Some wd) d))
          = (Inr (Some w) :: pyexc + widget option)
        \<and> w_cls w = w_cls wd \<and> w_options w = w_options wd"
proof (cases dflt)
  case None
  then show ?thesis by simp
next
  case (Some d)
  with try_set_default_Some [of tk wd d] show ?thesis by auto
qed

lemma widget_from_abbrev_iterable:
  assumes "abbrev = PList xs \<or> abbrev = PDict kvs \<or> abbrev = PMapping kvs"
  shows "widget_from_abbrev tk abbrev dflt =
     (case dflt of
        None \<Rightarrow> Inr (Some (widget_from_iterable abbrev))
      | Some d \<Rightarrow> Inr (try_set_default tk (Some (widget_from_iterable abbrev)) d))"
  using assms
  by (auto simp add: widget_from_abbrev_def widget_from_single_value_def split: option.split)

theorem options_of_list_dict_mapping:
  "(\<exists>w. widget_from_abbrev tk (PList xs) dflt = Inr (Some w) \<and> w_cls w = Dropdown
        \<and> w_options w = Some (PList xs))
   \<and> (\<exists>w. widget_from_abbrev tk (PDict kvs) dflt = Inr (Some w) \<and> w_cls w = Dropdown
        \<and> w_options w = Some (PDict kvs))
   \<and> (\<exists>w. widget_from_abbrev tk (PMapping kvs) dflt = Inr (Some w) \<and> w_cls w = Dropdown
        \<and> w_options w = Some (PList (items kvs)))"
proof (intro conjI)
  show "\<exists>w. widget_from_abbrev tk (PList xs) dflt = Inr (Some w) \<and> w_cls w = Dropdown
        \<and> w_options w = Some (PList xs)"
    using after_default [where dflt = dflt and tk = tk
        and wd = "widget_from_iterable (PList xs)"]
    by (simp add: widget_from_abbrev_iterable [of _ xs kvs])
      (simp add: widget_from_iterable_def dropdown_def)
  show "\<exists>w. widget_from_abbrev tk (PDict kvs) dflt = Inr (Some w) \<and> w_cls w = Dropdown
        \<and> w_options w = Some (PDict kvs)"
    using after_default [where dflt = dflt and tk = tk
        and wd = "widget_from_iterable (PDict kvs)"]
    by (simp add: widget_from_abbrev_iterable [of _ xs kvs])
      (simp add: widget_from_iterable_def dropdown_def)
  show "\<exists>w. widget_from_abbrev tk (PMapping kvs) dflt = Inr (Some w) \<and> w_cls w = Dropdown
        \<and> w_options w = Some (PList (items kvs))"
    using after_default [where dflt = dflt and tk = tk
        and wd = "widget_from_iterable (PMapping kvs)"]
    by (simp add: widget_from_abbrev_iterable [of _ xs kvs])
      (simp add: widget_from_iterable_def dropdown_def)
qed

theorem options_of_list_dict_mapping_witness:
  "widget_from_abbrev spec_toolkit (PList [PNum (NInt 1), PNum (NInt 2), PNum (NInt 3)]) None =
     Inr (Some (dropdown (PList [PNum (NInt 1), PNum (NInt 2), PNum (NInt 3)])))
   \<and> widget_from_abbrev spec_toolkit
       (PMapping [(PStr ''x'', PNum (NInt 1)), (PStr ''y'', PNum (NInt 2))]) None =
     Inr (Some (dropdown (PList [PTuple [PStr ''x'', PNum (NInt 1)],
                                 PTuple [PStr ''y'', PNum (NInt 2)]])))"
  using options_of_list_dict_mapping [of spec_toolkit
      "[PNum (NInt 1), PNum (NInt 2), PNum (NInt 3)]" None
      "[(PStr ''x'', PNum (NInt 1)), (PStr ''y'', PNum (NInt 2))]"]
  by (simp add: widget_from_abbrev_def widget_from_single_value_def widget_from_iterable_def
      items_def)

text \<open>
  C7 as it is stated fails on a \<open>dict\<close>: for \<open>{"x": 1, "y": 2}\<close> the options the
  choice control is given are the dictionary, not the list of pairs
  \<open>[("x", 1), ("y", 2)]\<close>.
\<close>

theorem dict_options_not_pairs:
  "widget_from_abbrev spec_toolkit
     (PDict [(PStr ''x'', PNum (NInt 1)), (PStr ''y'', PNum (NInt 2))]) None =
     Inr (Some (Widget Dropdown None None None None
                  (Some (PDict [(PStr ''x'', PNum (NInt 1)), (PStr ''y'', PNum (NInt 2))]))
                  [] None))
   \<and> PDict [(PStr ''x'', PNum (NInt 1)), (PStr ''y'', PNum (NInt 2))] \<noteq>
       PList (items [(PStr ''x'', PNum (NInt 1)), (PStr ''y'', PNum (NInt 2))])"
  by (simp add: widget_from_abbrev_def widget_from_single_value_def widget_from_iterable_def
      dropdown_def)


section \<open>The abbreviation resolver\<close>

lemma map_of_None_delete: "map_of kw n = None \<Longrightarrow> AList.delete n kw = kw"
  by (simp add: map_of_eq_None_iff)

lemma yield_takes:
  assumes "takes_abbreviation p"
  shows "yield_abbreviations_for_parameter p kw =
     (case resolution_priority kw p of
        None \<Rightarrow> ([(param_name p, None, None)], kw)
      | Some v \<Rightarrow> ([(param_name p, Some v, param_default p)], AList.delete (param_name p) kw))"
  using assms
  by (auto simp add: yield_abbreviations_for_parameter_def resolution_priority_def
      takes_abbreviation_def Let_def map_of_None_delete split: option.split)

lemma yield_skip:
  assumes "\<not> takes_abbreviation p" and "param_kind p \<noteq> VAR_KEYWORD"
  shows "yield_abbreviations_for_parameter p kw = ([], kw)"
  using assms
  by (simp add: yield_abbreviations_for_parameter_def takes_abbreviation_def Let_def)

lemma loop_step:
  assumes "takes_abbreviation p"
  shows "find_abbreviations_loop (p # ps) kw acc =
     (case resolution_priority kw p of
        None \<Rightarrow> Inl (ValueError (CannotFindAbbreviation (param_name p)))
      | Some v \<Rightarrow>
          find_abbreviations_loop ps (AList.delete (param_name p) kw)
            (acc @ [(param_name p, v, param_default p)]))"
  by (simp add: yield_takes [OF assms] split: option.split)

lemma loop_skip:
  assumes "\<not> takes_abbreviation p" and "param_kind p \<noteq> VAR_KEYWORD"
  shows "find_abbreviations_loop (p # ps) kw acc = find_abbreviations_loop ps kw acc"
  by (simp add: yield_skip [OF assms])

lemma loop_var_keyword:
  assumes "param_kind p = VAR_KEYWORD"
  shows "find_abbreviations_loop (p # ps) kw acc =
     find_abbreviations_loop ps [] (acc @ map (\<lambda>(k, v). (k, v, None)) kw)"
proof -
  have a: "append_abbreviations (map (\<lambda>(k, v). (k, Some v, None)) xs) acc0 =
        Inr (acc0 @ map (\<lambda>(k, v). (k, v, None)) xs)" for xs :: kwargs and acc0
    by (induction xs arbitrary: acc0) auto
  from assms show ?thesis
    by (simp add: yield_abbreviations_for_parameter_def Let_def a)
qed

lemma resolution_priority_cong:
  "map_of kw (param_name p) = map_of kw' (param_name p) \<Longrightarrow>
     resolution_priority kw p = resolution_priority kw' p"
  by (simp add: resolution_priority_def)

text \<open>Whatever the loop returns extends the triples it started from, and the names it
  adds are names of parameters or keys of the override mapping.\<close>

lemma loop_result:
  "find_abbreviations_loop ps kw acc = Inr ts \<Longrightarrow>
     \<exists>ts'. ts = acc @ ts' \<and> fst ` set ts' \<subseteq> param_name ` set ps \<union> fst ` set kw"
proof (induction ps arbitrary: kw acc)
  case Nil
  then show ?case by simp
next
  case (Cons p ps)
  show ?case
  proof (cases "takes_abbreviation p")
    case True
    with Cons.prems obtain v where v: "resolution_priority kw p = Some v"
      and r: "find_abbreviations_loop ps (AList.delete (param_name p) kw)
                (acc @ [(param_name p, v, param_default p)]) = Inr ts"
      by (auto simp add: loop_step simp del: find_abbreviations_loop.simps split: option.splits)
    from Cons.IH [OF r] obtain ts' where
      ts': "ts = (acc @ [(param_name p, v, param_default p)]) @ ts'"
      "fst ` set ts' \<subseteq> param_name ` set ps \<union> fst ` set (AList.delete (param_name p) kw)"
      by blast
    have "fst ` set (AList.delete (param_name p) kw) \<subseteq> fst ` set kw"
      by (rule dom_delete_subset)
    with ts' show ?thesis
      by (intro exI [of _ "(param_name p, v, param_default p) # ts'"]) auto
  next
    case False
    show ?thesis
    proof (cases "param_kind p = VAR_KEYWORD")
      case True
      with Cons.prems have
        r: "find_abbreviations_loop ps [] (acc @ map (\<lambda>(k, v). (k, v, None)) kw) = Inr ts"
        by (simp add: loop_var_keyword del: find_abbreviations_loop.simps)
      from Cons.IH [OF r] obtain ts' where
        ts': "ts = (acc @ map (\<lambda>(k, v). (k, v, None)) kw) @ ts'"
        "fst ` set ts' \<subseteq> param_name ` set ps \<union> fst ` set ([] :: kwargs)"
        by blast
      have "fst ` set (map (\<lambda>(k, v). (k, v, None :: pyval option)) kw) = fst ` set kw"
        by force
      then have "fst ` set (map (\<lambda>(k, v). (k, v, None :: pyval option)) kw @ ts')
            \<subseteq> param_name ` set (p # ps) \<union> fst ` set kw"
        using ts'(2) by (simp only: set_append image_Un) auto
      with ts'(1) show ?thesis
        by (intro exI [of _ "map (\<lambda>(k, v). (k, v, None)) kw @ ts'"]) simp
    next
      case nvk: False
      with False Cons.prems have r: "find_abbreviations_loop ps kw acc = Inr ts"
        by (simp add: loop_skip del: find_abbreviations_loop.simps)
      have "param_name ` set ps \<subseteq> param_name ` set (p # ps)" by auto
      with Cons.IH [OF r] show ?thesis by blast
    qed
  qed
qed

text \<open>Without a variadic-keyword parameter only parameter names are added.\<close>

lemma loop_result_declared:
  assumes "\<forall>q\<in>set ps. param_kind q \<noteq> VAR_KEYWORD"
    and "find_abbreviations_loop ps kw acc = Inr ts"
  shows "\<exists>ts'. ts = acc @ ts' \<and> fst ` set ts' \<subseteq> param_name ` set ps"
  using assms
proof (induction ps arbitrary: kw acc)
  case Nil
  then show ?case by simp
next
  case (Cons p ps)
  then have nvk: "param_kind p \<noteq> VAR_KEYWORD" "\<forall>q\<in>set ps. param_kind q \<noteq> VAR_KEYWORD"
    by simp_all
  show ?case
  proof (cases "takes_abbreviation p")
    case True
    with Cons.prems obtain v where v: "resolution_priority kw p = Some v"
      and r: "find_abbreviations_loop ps (AList.delete (param_name p) kw)
                (acc @ [(param_name p, v, param_default p)]) = Inr ts"
      by (auto simp add: loop_step simp del: find_abbreviations_loop.simps split: option.splits)
    from Cons.IH [OF nvk(2) r] obtain ts' where
      "ts = (acc @ [(param_name p, v, param_default p)]) @ ts'"
      "fst ` set ts' \<subseteq> param_name ` set ps"
      by blast
    then show ?thesis
      by (intro exI [of _ "(param_name p, v, param_default p) # ts'"]) auto
  next
    case False
    with nvk Cons.prems have r: "find_abbreviations_loop ps kw acc = Inr ts"
      by (simp add: loop_skip del: find_abbreviations_loop.simps)
    have "param_name ` set ps \<subseteq> param_name ` set (p # ps)" by auto
    with Cons.IH [OF nvk(2) r] show ?thesis by blast
  qed
qed

text \<open>The parameters before a given one, none of them variadic-keyword: either one of
  them cannot be resolved and the loop raises, or the loop goes on behind them with a
  mapping that has lost at most their names.\<close>

lemma loop_prefix:
  assumes "\<forall>q\<in>set pre. param_kind q \<noteq> VAR_KEYWORD" and "distinct (map param_name pre)"
  shows "((\<exists>q\<in>set pre. \<not> resolvable kw q)
            \<and> (\<exists>n. find_abbreviations_loop (pre @ rest) kw acc =
                      Inl (ValueError (CannotFindAbbreviation n))))
         \<or> ((\<forall>q\<in>set pre. resolvable kw q)
            \<and> (\<exists>kw' ts. find_abbreviations_loop (pre @ rest) kw acc =
                            find_abbreviations_loop rest kw' (acc @ ts)
                  \<and> fst ` set ts \<subseteq> param_name ` set pre
                  \<and> (\<forall>n. n \<notin> param_name ` set pre \<longrightarrow> map_of kw' n = map_of kw n)))"
  using assms
proof (induction pre arbitrary: kw acc)
  case Nil
  have "find_abbreviations_loop ([] @ rest) kw acc = find_abbreviations_loop rest kw (acc @ [])"
    by simp
  then show ?case by (intro disjI2) (simp, blast)
next
  case (Cons p pre)
  then have nvk: "param_kind p \<noteq> VAR_KEYWORD" "\<forall>q\<in>set pre. param_kind q \<noteq> VAR_KEYWORD"
    and dist: "param_name p \<notin> param_name ` set pre" "distinct (map param_name pre)"
    by simp_all
  show ?case
  proof (cases "takes_abbreviation p")
    case False
    then have rp: "resolvable kw p" by (simp add: resolvable_def)
    have eq: "find_abbreviations_loop ((p # pre) @ rest) kw acc =
          find_abbreviations_loop (pre @ rest) kw acc"
      using False nvk(1) by (simp add: loop_skip del: find_abbreviations_loop.simps)
    from Cons.IH [OF nvk(2) dist(2), of kw acc] show ?thesis
    proof
      assume "(\<exists>q\<in>set pre. \<not> resolvable kw q)
            \<and> (\<exists>n. find_abbreviations_loop (pre @ rest) kw acc =
                      Inl (ValueError (CannotFindAbbreviation n)))"
      with eq show ?thesis by auto
    next
      assume "(\<forall>q\<in>set pre. resolvable kw q)
            \<and> (\<exists>kw' ts. find_abbreviations_loop (pre @ rest) kw acc =
                            find_abbreviations_loop rest kw' (acc @ ts)
                  \<and> fst ` set ts \<subseteq> param_name ` set pre
                  \<and> (\<forall>n. n \<notin> param_name ` set pre \<longrightarrow> map_of kw' n = map_of kw n))"
      then obtain kw' ts where h: "\<forall>q\<in>set pre. resolvable kw q"
        "find_abbreviations_loop (pre @ rest) kw acc = find_abbreviations_loop rest kw' (acc @ ts)"
        "fst ` set ts \<subseteq> param_name ` set pre"
        "\<forall>n. n \<notin> param_name ` set pre \<longrightarrow> map_of kw' n = map_of kw n"
        by blast
      have "(\<forall>q\<in>set (p # pre). resolvable kw q)
            \<and> (\<exists>kw' ts. find_abbreviations_loop ((p # pre) @ rest) kw acc =
                            find_abbreviations_loop rest kw' (acc @ ts)
                  \<and> fst ` set ts \<subseteq> param_name ` set (p # pre)
                  \<and> (\<forall>n. n \<notin> param_name ` set (p # pre) \<longrightarrow> map_of kw' n = map_of kw n))"
        using h rp eq by (intro conjI exI [of _ kw'] exI [of _ ts]) auto
      then show ?thesis by (rule disjI2)
    qed
  next
    case True
    show ?thesis
    proof (cases "resolution_priority kw p")
      case None
      then have "\<not> resolvable kw p" using True by (simp add: resolvable_def)
      moreover have "find_abbreviations_loop ((p # pre) @ rest) kw acc =
          Inl (ValueError (CannotFindAbbreviation (param_name p)))"
        using None True by (simp add: loop_step del: find_abbreviations_loop.simps)
      ultimately show ?thesis by auto
    next
      case (Some v)
      then have rp: "resolvable kw p" by (simp add: resolvable_def)
      let ?kw1 = "AList.delete (param_name p) kw"
      let ?acc1 = "acc @ [(param_name p, v, param_default p)]"
      have eq: "find_abbreviations_loop ((p # pre) @ rest) kw acc =
          find_abbreviations_loop (pre @ rest) ?kw1 ?acc1"
        using Some True by (simp add: loop_step del: find_abbreviations_loop.simps)
      have same: "map_of ?kw1 n = map_of kw n" if "n \<noteq> param_name p" for n
        using that by simp
      have res: "resolvable ?kw1 q = resolvable kw q" if "q \<in> set pre" for q
      proof -
        from that dist(1) have "param_name q \<noteq> param_name p" by (metis imageI)
        then have "resolution_priority ?kw1 q = resolution_priority kw q"
          by (intro resolution_priority_cong same)
        then show ?thesis by (simp add: resolvable_def)
      qed
      from Cons.IH [OF nvk(2) dist(2), of ?kw1 ?acc1] show ?thesis
      proof
        assume "(\<exists>q\<in>set pre. \<not> resolvable ?kw1 q)
            \<and> (\<exists>n. find_abbreviations_loop (pre @ rest) ?kw1 ?acc1 =
                      Inl (ValueError (CannotFindAbbreviation n)))"
        with eq res show ?thesis by auto
      next
        assume "(\<forall>q\<in>set pre. resolvable ?kw1 q)
            \<and> (\<exists>kw' ts. find_abbreviations_loop (pre @ rest) ?kw1 ?acc1 =
                            find_abbreviations_loop rest kw' (?acc1 @ ts)
                  \<and> fst ` set ts \<subseteq> param_name ` set pre
                  \<and> (\<forall>n. n \<notin> param_name ` set pre \<longrightarrow> map_of kw' n = map_of ?kw1 n))"
        then obtain kw' ts where h: "\<forall>q\<in>set pre. resolvable ?kw1 q"
          "find_abbreviations_loop (pre @ rest) ?kw1 ?acc1 =
             find_abbreviations_loop rest kw' (?acc1 @ ts)"
          "fst ` set ts \<subseteq> param_name ` set pre"
          "\<forall>n. n \<notin> param_name ` set pre \<longrightarrow> map_of kw' n = map_of ?kw1 n"
          by blast
        have "(\<forall>q\<in>set (p # pre). resolvable kw q)
            \<and> (\<exists>kw' ts. find_abbreviations_loop ((p # pre) @ rest) kw acc =
                            find_abbreviations_loop rest kw' (acc @ ts)
                  \<and> fst ` set ts \<subseteq> param_name ` set (p # pre)
                  \<and> (\<forall>n. n \<notin> param_name ` set (p # pre) \<longrightarrow> map_of kw' n = map_of kw n))"
        proof (intro conjI exI [of _ kw'] exI [of _ "(param_name p, v, param_default p) # ts"])
          show "\<forall>q\<in>set (p # pre). resolvable kw q" using h(1) rp res by auto
          show "find_abbreviations_loop ((p # pre) @ rest) kw acc =
                  find_abbreviations_loop rest kw' (acc @ (param_name p, v, param_default p) # ts)"
            using eq h(2) by simp
          show "fst ` set ((param_name p, v, param_default p) # ts) \<subseteq> param_name ` set (p # pre)"
            using h(3) by auto
          show "\<forall>n. n \<notin> param_name ` set (p # pre) \<longrightarrow> map_of kw' n = map_of kw n"
            using h(4) same by auto
        qed
        then show ?thesis by (rule disjI2)
      qed
    qed
  qed
qed

text \<open>
  C3. Let \<open>p\<close> be a positional-or-keyword or keyword-only parameter of an inspectable
  function (parameter names are distinct and a variadic-keyword parameter comes after
  \<open>p\<close>, as Python has it). If resolution succeeds, the one triple it produces under
  the name of \<open>p\<close> carries the override for that name if there is one, else the
  annotation, else the default, together with the declared default. If none of the
  three is present resolution raises the missing-abbreviation error, and it names
  \<open>p\<close> whenever the parameters before \<open>p\<close> can all be resolved.
\<close>

theorem resolution_follows_priority:
  assumes "f_signature f = Some (pre @ p # post)"
    and "takes_abbreviation p"
    and "distinct (map param_name (pre @ p # post))"
    and "\<forall>q\<in>set pre. param_kind q \<noteq> VAR_KEYWORD"
  shows "(\<forall>ts. find_abbreviations f kw = Inr ts \<longrightarrow>
            (\<exists>v. resolution_priority kw p = Some v
                \<and> (param_name p, v, param_default p) \<in> set ts
                \<and> (\<forall>t\<in>set ts. fst t = param_name p \<longrightarrow> t = (param_name p, v, param_default p))))
       \<and> (resolution_priority kw p = None \<longrightarrow>
            (\<exists>n. find_abbreviations f kw = Inl (ValueError (CannotFindAbbreviation n)))
          \<and> ((\<forall>q\<in>set pre. resolvable kw q) \<longrightarrow>
               find_abbreviations f kw =
                 Inl (ValueError (CannotFindAbbreviation (param_name p)))))"
proof -
  have fa: "find_abbreviations f kw = find_abbreviations_loop (pre @ p # post) kw []"
    using assms(1) by (simp add: find_abbreviations_def)
  from assms(3) have d: "distinct (map param_name pre)" "param_name p \<notin> param_name ` set pre"
    "param_name p \<notin> param_name ` set post"
    by auto
  from loop_prefix [OF assms(4) d(1), of kw "p # post" "[]"] show ?thesis
  proof
    assume "(\<exists>q\<in>set pre. \<not> resolvable kw q)
            \<and> (\<exists>n. find_abbreviations_loop (pre @ p # post) kw [] =
                      Inl (ValueError (CannotFindAbbreviation n)))"
    with fa show ?thesis by auto
  next
    assume "(\<forall>q\<in>set pre. resolvable kw q)
            \<and> (\<exists>kw' ts. find_abbreviations_loop (pre @ p # post) kw [] =
                            find_abbreviations_loop (p # post) kw' ([] @ ts)
                  \<and> fst ` set ts \<subseteq> param_name ` set pre
                  \<and> (\<forall>n. n \<notin> param_name ` set pre \<longrightarrow> map_of kw' n = map_of kw n))"
    then obtain kw' ts0 where h:
      "find_abbreviations_loop (pre @ p # post) kw [] = find_abbreviations_loop (p # post) kw' ts0"
      "fst ` set ts0 \<subseteq> param_name ` set pre"
      "\<forall>n. n \<notin> param_name ` set pre \<longrightarrow> map_of kw' n = map_of kw n"
      by auto
    from h(3) d(2) have "map_of kw' (param_name p) = map_of kw (param_name p)" by blast
    then have rp: "resolution_priority kw' p = resolution_priority kw p"
      by (rule resolution_priority_cong)
    show ?thesis
    proof (cases "resolution_priority kw p")
      case None
      with rp fa h(1) assms(2) show ?thesis by (simp add: loop_step del: find_abbreviations_loop.simps)
    next
      case (Some v)
      let ?t = "(param_name p, v, param_default p)"
      have step: "find_abbreviations f kw =
          find_abbreviations_loop post (AList.delete (param_name p) kw') (ts0 @ [?t])"
        using Some rp fa h(1) assms(2) by (simp add: loop_step del: find_abbreviations_loop.simps)
      have "?t \<in> set ts \<and> (\<forall>t\<in>set ts. fst t = param_name p \<longrightarrow> t = ?t)"
        if "find_abbreviations f kw = Inr ts" for ts
      proof -
        from that step loop_result obtain ts' where ts': "ts = (ts0 @ [?t]) @ ts'"
          "fst ` set ts' \<subseteq> param_name ` set post \<union> fst ` set (AList.delete (param_name p) kw')"
          by metis
        have "param_name p \<notin> fst ` set (AList.delete (param_name p) kw')"
          by (rule delete_notin_dom)
        with ts'(2) d(3) have 1: "param_name p \<notin> fst ` set ts'" by blast
        from h(2) d(2) have 2: "param_name p \<notin> fst ` set ts0" by blast
        from 1 2 ts'(1) show ?thesis by (auto simp add: image_iff)
      qed
      with Some show ?thesis by simp
    qed
  qed
qed

theorem resolution_follows_priority_witness:
  "find_abbreviations three_h [(''c'', PStr ''hi''), (''b'', PNum (NBool False))] =
     Inr [(''a'', PTuple [PNum (NInt 0), PNum (NInt 10)], Some (PNum (NInt 3))),
          (''b'', PNum (NBool False), Some (PNum (NBool True))),
          (''c'', PStr ''hi'', None)]
   \<and> resolution_priority [(''c'', PStr ''hi''), (''b'', PNum (NBool False))]
       (positional ''b'' None (Some (PNum (NBool True)))) = Some (PNum (NBool False))
   \<and> find_abbreviations three_h [(''b'', PNum (NBool False))] =
       Inl (ValueError (CannotFindAbbreviation ''c''))"
proof -
  let ?a = "positional ''a'' (Some (PTuple [PNum (NInt 0), PNum (NInt 10)])) (Some (PNum (NInt 3)))"
  let ?b = "positional ''b'' None (Some (PNum (NBool True)))"
  let ?c = "\<lparr>param_name = ''c'', param_kind = KEYWORD_ONLY,
             param_annotation = None, param_default = None\<rparr>"
  have sb: "f_signature three_h = Some ([?a] @ ?b # [?c])"
    and sc: "f_signature three_h = Some ([?a, ?b] @ ?c # [])"
    by (simp_all add: three_h_def def_function_def)
  have tb: "takes_abbreviation ?b" and tc: "takes_abbreviation ?c"
    by (simp_all add: takes_abbreviation_def positional_def)
  have db: "distinct (map param_name ([?a] @ ?b # [?c]))"
    and dc: "distinct (map param_name ([?a, ?b] @ ?c # []))"
    by (simp_all add: positional_def)
  have vb: "\<forall>q\<in>set [?a]. param_kind q \<noteq> VAR_KEYWORD"
    and vc: "\<forall>q\<in>set [?a, ?b]. param_kind q \<noteq> VAR_KEYWORD"
    by (simp_all add: positional_def)
  have e1: "find_abbreviations three_h [(''c'', PStr ''hi''), (''b'', PNum (NBool False))] =
     Inr [(''a'', PTuple [PNum (NInt 0), PNum (NInt 10)], Some (PNum (NInt 3))),
          (''b'', PNum (NBool False), Some (PNum (NBool True))),
          (''c'', PStr ''hi'', None)]"
    by (simp add: find_abbreviations_def three_h_def def_function_def positional_def
        yield_abbreviations_for_parameter_def)
  have rc: "resolution_priority [(''b'', PNum (NBool False))] ?c = None"
    by (simp add: resolution_priority_def)
  have ra: "\<forall>q\<in>set [?a, ?b]. resolvable [(''b'', PNum (NBool False))] q"
    by (simp add: resolvable_def resolution_priority_def positional_def)
  from resolution_follows_priority [OF sb tb db vb,
      of "[(''c'', PStr ''hi''), (''b'', PNum (NBool False))]"] e1
  have "resolution_priority [(''c'', PStr ''hi''), (''b'', PNum (NBool False))] ?b =
          Some (PNum (NBool False))"
    by (auto simp add: positional_def)
  moreover from resolution_follows_priority [OF sc tc dc vc, of "[(''b'', PNum (NBool False))]"]
    rc ra
  have "find_abbreviations three_h [(''b'', PNum (NBool False))] =
       Inl (ValueError (CannotFindAbbreviation ''c''))"
    by simp
  ultimately show ?thesis using e1 by simp
qed

text \<open>An override whose name is no parameter's does not reach the resolver's result
  when there is no variadic-keyword parameter to collect it.\<close>

lemma loop_ignores:
  assumes "\<forall>q\<in>set ps. param_kind q \<noteq> VAR_KEYWORD" and "n \<notin> param_name ` set ps"
    and "AList.delete n kw = AList.delete n kw'"
  shows "find_abbreviations_loop ps kw acc = find_abbreviations_loop ps kw' acc"
  using assms
proof (induction ps arbitrary: kw kw' acc)
  case Nil
  then show ?case by simp
next
  case (Cons p ps)
  then have nvk: "param_kind p \<noteq> VAR_KEYWORD" "\<forall>q\<in>set ps. param_kind q \<noteq> VAR_KEYWORD"
    and nn: "param_name p \<noteq> n" "n \<notin> param_name ` set ps"
    by auto
  show ?case
  proof (cases "takes_abbreviation p")
    case False
    with nvk Cons.IH [OF nvk(2) nn(2) Cons.prems(3)] show ?thesis
      by (simp add: loop_skip del: find_abbreviations_loop.simps)
  next
    case True
    have "map_of (AList.delete n kw) (param_name p) = map_of kw (param_name p)"
      "map_of (AList.delete n kw') (param_name p) = map_of kw' (param_name p)"
      using nn(1) by simp_all
    with Cons.prems(3) have "map_of kw (param_name p) = map_of kw' (param_name p)"
      by simp
    then have rp: "resolution_priority kw p = resolution_priority kw' p"
      by (rule resolution_priority_cong)
    have "AList.delete n (AList.delete (param_name p) kw) =
          AList.delete n (AList.delete (param_name p) kw')"
      using Cons.prems(3) by (simp add: delete_twist [of n])
    from Cons.IH [OF nvk(2) nn(2) this] rp True show ?thesis
      by (simp add: loop_step del: find_abbreviations_loop.simps split: option.split)
  qed
qed

lemma delete_inserted:
  "AList.delete n (kw1 @ (n, v) # kw2) = AList.delete n (kw1 @ kw2)"
  by (simp add: AList.delete_eq)


section \<open>Setting up the container\<close>

lemma w_kwarg_with_kwarg: "w_kwarg (with_kwarg w n) = Some n"
  by (cases w) simp

lemma w_cls_with_kwarg: "w_cls (with_kwarg w n) = w_cls w"
  by (cases w) simp

lemma w_cls_with_description: "w_cls (with_description w n) = w_cls w"
  by (cases w) simp

lemma widgets_loop_kwarg:
  "widgets_from_abbreviations_loop tk seq result made = (Inr ws, made') \<Longrightarrow>
     map w_kwarg ws = map w_kwarg result @ map (\<lambda>t. Some (fst t)) seq"
proof (induction seq arbitrary: result made)
  case Nil
  then show ?case by simp
next
  case (Cons t seq)
  obtain name abbrev dflt where t: "t = (name, abbrev, dflt)" by (cases t)
  from Cons.prems obtain w where
    w: "widget_from_abbrev tk abbrev dflt = Inr (Some w)"
    by (auto simp add: t split: sum.splits option.splits)
  let ?w = "with_kwarg (if w_description w = [] then with_description w name else w) name"
  from Cons.prems w obtain made1 where
    "widgets_from_abbreviations_loop tk seq (result @ [?w]) made1 = (Inr ws, made')"
    by (auto simp add: t Let_def)
  from Cons.IH [OF this] show ?case
    by (simp add: t w_kwarg_with_kwarg)
qed

lemma widgets_kwarg:
  "widgets_from_abbreviations tk seq = (Inr ws, made) \<Longrightarrow>
     map w_kwarg ws = map (\<lambda>t. Some (fst t)) seq"
  using widgets_loop_kwarg [of tk seq "[]" "[]" ws made]
  by (simp add: widgets_from_abbreviations_def)

lemma kwarg_names_of_triples:
  "map w_kwarg ws = map (\<lambda>t. Some (fst t)) seq \<Longrightarrow> kwarg_names ws = fst ` set seq"
proof -
  assume "map w_kwarg ws = map (\<lambda>t. Some (fst t)) seq"
  then have "set (map w_kwarg ws) = set (map (\<lambda>t. Some (fst t)) seq)" by simp
  then have "w_kwarg ` set ws = (\<lambda>t. Some (fst t)) ` set seq" by simp
  then show ?thesis by (auto simp add: kwarg_names_def image_iff)
qed

text \<open>A container that \<open>__init__\<close> returns comes from triples that were resolved and,
  for an inspectable function, validated.\<close>

lemma interactive_init_Inr:
  assumes "interactive_init tk f kw = (Inr s, made)"
  shows "\<exists>ts. find_abbreviations f (resolver_kwargs kw) = Inr ts
           \<and> (f_argspec f \<longrightarrow> f_getcallargs f (callargs_of ts) = None)
           \<and> map w_kwarg (self_kwargs_widgets s) = map (\<lambda>t. Some (fst t)) ts
           \<and> self_f s = f
           \<and> (truthy (self_manual s) \<longrightarrow> (\<exists>b. self_manual_button s = Some b))"
proof -
  from assms obtain ts where ts: "find_abbreviations f (resolver_kwargs kw) = Inr ts"
    by (auto simp add: interactive_init_def pop_default_def resolver_kwargs_def
        split: sum.splits)
  from assms ts have v: "f_argspec f \<longrightarrow> f_getcallargs f (callargs_of ts) = None"
    by (auto simp add: interactive_init_def pop_default_def resolver_kwargs_def
        split: option.splits if_splits)
  from assms ts v obtain ws m where
    ws: "widgets_from_abbreviations tk ts = (Inr ws, m)"
    by (auto simp add: interactive_init_def pop_default_def resolver_kwargs_def
        split: option.splits sum.splits prod.splits if_splits)
  from assms ts v ws have "self_kwargs_widgets s = ws" "self_f s = f"
    "truthy (self_manual s) \<longrightarrow> (\<exists>b. self_manual_button s = Some b)"
    by (auto simp add: interactive_init_def pop_default_def resolver_kwargs_def Let_def
        split: option.splits if_splits)
  with ts v widgets_kwarg [OF ws] show ?thesis by auto
qed

text \<open>
  C2. For a function that \<open>check_argspec\<close> can inspect, the names and values the
  resolver produced are handed to \<open>getcallargs\<close> during setup: when that raises,
  \<open>__init__\<close> raises the same exception and nothing has been built, and a container
  is only ever returned when the check passed.
\<close>

theorem validation_precedes_controls:
  assumes "f_argspec f"
    and "find_abbreviations f (resolver_kwargs kw) = Inr ts"
  shows "(\<forall>e. f_getcallargs f (callargs_of ts) = Some e \<longrightarrow>
            interactive_init tk f kw = (Inl e, []))
       \<and> (\<forall>s made. interactive_init tk f kw = (Inr s, made) \<longrightarrow>
            f_getcallargs f (callargs_of ts) = None)"
proof (intro conjI allI impI)
  fix e
  assume "f_getcallargs f (callargs_of ts) = Some e"
  with assms show "interactive_init tk f kw = (Inl e, [])"
    by (simp add: interactive_init_def pop_default_def resolver_kwargs_def)
next
  fix s made
  assume "interactive_init tk f kw = (Inr s, made)"
  from interactive_init_Inr [OF this] assms
  show "f_getcallargs f (callargs_of ts) = None" by auto
qed

lemma find_abbreviations_posonly_g:
  "find_abbreviations posonly_g (resolver_kwargs []) =
     Inr [(''b'', PNum (NInt 1), Some (PNum (NInt 1)))]"
  by (simp add: find_abbreviations_def posonly_g_def def_function_def positional_def
      yield_abbreviations_for_parameter_def resolver_kwargs_def Let_def)

lemma getcallargs_posonly_g:
  "f_getcallargs posonly_g (callargs_of [(''b'', PNum (NInt 1), Some (PNum (NInt 1)))]) =
     Some (TypeError ''missing required argument'')"
  by (simp add: posonly_g_def def_function_def positional_def getcallargs_def callargs_of_def
      takes_abbreviation_def)

theorem validation_precedes_controls_witness:
  "f_argspec posonly_g
   \<and> find_abbreviations posonly_g (resolver_kwargs []) =
       Inr [(''b'', PNum (NInt 1), Some (PNum (NInt 1)))]
   \<and> interactive_init spec_toolkit posonly_g [] =
       (Inl (TypeError ''missing required argument''), [])"
proof -
  have a: "f_argspec posonly_g" by (simp add: posonly_g_def def_function_def)
  from validation_precedes_controls [OF a find_abbreviations_posonly_g, of spec_toolkit]
    getcallargs_posonly_g a find_abbreviations_posonly_g
  show ?thesis by simp
qed

text \<open>When resolution itself fails nothing has been built either; and the list of
  what was built is not always empty: a successful setup lists its controls.\<close>

lemma resolution_failure_builds_nothing:
  "find_abbreviations f (resolver_kwargs kw) = Inl e \<Longrightarrow>
     interactive_init tk f kw = (Inl e, [])"
  by (simp add: interactive_init_def pop_default_def resolver_kwargs_def)

lemma setup_lists_controls:
  "snd (interactive_init spec_toolkit show_x []) =
     [ChildWidget (Widget IntSlider (Some (PNum (NInt 5))) (Some (PNum (NInt (- 5))))
                     (Some (PNum (NInt 15))) None None [] None),
      ChildOutput]"
  by (simp add: interactive_init_def pop_default_def show_x_def def_function_def positional_def
      find_abbreviations_def yield_abbreviations_for_parameter_def getcallargs_def
      callargs_of_def takes_abbreviation_def widgets_from_abbreviations_def
      widget_from_abbrev_def widget_from_single_value_def get_min_max_value_def
      infer_min_max_value_def num_eq_def num_less_def num_neg_def num_mul_def slider_def
      Let_def)

section \<open>Overrides that match no parameter\<close>

lemma map_of_inserted:
  "n \<noteq> k \<Longrightarrow> map_of (kw1 @ (n, v) # kw2) k = map_of (kw1 @ kw2) k"
  by (induction kw1) auto

lemma delete_other_inserted:
  "n \<noteq> k \<Longrightarrow> AList.delete k (kw1 @ (n, v) # kw2) =
     AList.delete k kw1 @ (n, v) # AList.delete k kw2"
  by (simp add: AList.delete_eq)

lemma delete_append: "AList.delete k (kw1 @ kw2) = AList.delete k kw1 @ AList.delete k kw2"
  by (simp add: AList.delete_eq)

lemma find_abbreviations_ignores:
  assumes "f_signature f = Some ps" and "\<forall>q\<in>set ps. param_kind q \<noteq> VAR_KEYWORD"
    and "n \<notin> param_name ` set ps"
  shows "find_abbreviations f (kw1 @ (n, v) # kw2) = find_abbreviations f (kw1 @ kw2)"
  using assms(1) loop_ignores [OF assms(2,3) delete_inserted [of n kw1 v kw2]]
  by (simp add: find_abbreviations_def)

lemma resolver_kwargs_inserted:
  assumes "n \<noteq> ''clear_output''" and "n \<noteq> ''__manual''"
  shows "\<exists>a b. resolver_kwargs (kw1 @ (n, v) # kw2) = a @ (n, v) # b
           \<and> resolver_kwargs (kw1 @ kw2) = a @ b"
proof -
  have "resolver_kwargs (kw1 @ (n, v) # kw2) = resolver_kwargs kw1 @ (n, v) # resolver_kwargs kw2"
    using assms by (simp add: resolver_kwargs_def delete_other_inserted)
  moreover have "resolver_kwargs (kw1 @ kw2) = resolver_kwargs kw1 @ resolver_kwargs kw2"
    by (simp add: resolver_kwargs_def delete_append)
  ultimately show ?thesis by blast
qed

section \<open>The callback\<close>

lemma collect_values_keys:
  "collect_values tk ws kw = (r, kw') \<Longrightarrow> fst ` set kw' \<subseteq> fst ` set kw \<union> kwarg_names ws"
proof (induction ws arbitrary: kw)
  case Nil
  then show ?case by simp
next
  case (Cons w ws)
  show ?case
  proof (cases "get_interact_value tk w")
    case (Inl e)
    with Cons.prems show ?thesis by auto
  next
    case (Inr x)
    show ?thesis
    proof (cases "w_kwarg w")
      case None
      with Inr Cons.prems show ?thesis by auto
    next
      case (Some k)
      with Inr Cons.prems have "collect_values tk ws (AList.update k x kw) = (r, kw')"
        by simp
      from Cons.IH [OF this]
      have "fst ` set kw' \<subseteq> ({k} \<union> fst ` set kw) \<union> kwarg_names ws"
        by (simp only: dom_update)
      moreover have "k \<in> kwarg_names (w # ws)" "kwarg_names ws \<subseteq> kwarg_names (w # ws)"
        using Some by (auto simp add: kwarg_names_def image_iff)
      ultimately show ?thesis by blast
    qed
  qed
qed

lemma call_f_try_Invoke:
  assumes "Invoke kw \<in> set (fst (snd (call_f_try tk s)))"
  shows "collect_values tk (self_kwargs_widgets s) (self_kwargs s) = (None, kw)"
proof (cases "collect_values tk (self_kwargs_widgets s) (self_kwargs s)")
  case (Pair r kw')
  show ?thesis
  proof (cases r)
    case (Some e)
    with Pair assms show ?thesis by (simp add: call_f_try_def)
  next
    case None
    with Pair assms have "kw = kw'"
      by (auto simp add: call_f_try_def Let_def split: sum.splits if_splits)
    with Pair None show ?thesis by simp
  qed
qed



lemma call_f_Invoke:
  assumes "Invoke kw \<in> set (events_of (call_f tk s))"
  shows "collect_values tk (self_kwargs_widgets s) [] = (None, kw)"
proof -
  let ?s0 = "s\<lparr>self_kwargs := []\<rparr>"
  let ?s1 = "if truthy (self_manual s) then set_disabled True ?s0 else ?s0"
  from assms have "Invoke kw \<in> set (fst (snd (call_f_try tk ?s1)))"
    by (auto simp add: call_f_def events_of_def Let_def split: prod.splits option.splits
        if_splits)
  from call_f_try_Invoke [OF this] show ?thesis
    by (simp add: set_disabled_def split: if_splits)
qed

text \<open>The function is only ever called with names under which controls are bound.\<close>

lemma call_f_passes_kwarg_names:
  assumes "Invoke kw \<in> set (events_of (call_f tk s))"
  shows "fst ` set kw \<subseteq> kwarg_names (self_kwargs_widgets s)"
  using collect_values_keys [OF call_f_Invoke [OF assms]] by simp

lemma init_ignores_unknown:
  assumes "f_signature f = Some ps"
    and "\<forall>q\<in>set ps. param_kind q \<noteq> VAR_KEYWORD"
    and "n \<notin> param_name ` set ps"
    and "n \<noteq> ''clear_output''" and "n \<noteq> ''__manual''"
  shows "interactive_init tk f (kw1 @ (n, v) # kw2) = interactive_init tk f (kw1 @ kw2)"
proof -
  obtain a b where ab: "resolver_kwargs (kw1 @ (n, v) # kw2) = a @ (n, v) # b"
    "resolver_kwargs (kw1 @ kw2) = a @ b"
    using resolver_kwargs_inserted [OF assms(4,5)] by blast
  have fa: "find_abbreviations f (resolver_kwargs (kw1 @ (n, v) # kw2)) =
        find_abbreviations f (resolver_kwargs (kw1 @ kw2))"
    by (simp only: ab find_abbreviations_ignores [OF assms(1,2,3)])
  have m: "map_of (kw1 @ (n, v) # kw2) ''clear_output'' = map_of (kw1 @ kw2) ''clear_output''"
    using assms(4) by (rule map_of_inserted)
  have d1: "AList.delete ''clear_output'' (kw1 @ (n, v) # kw2) =
        AList.delete ''clear_output'' kw1 @ (n, v) # AList.delete ''clear_output'' kw2"
    using assms(4) by (rule delete_other_inserted)
  have d2: "AList.delete ''clear_output'' (kw1 @ kw2) =
        AList.delete ''clear_output'' kw1 @ AList.delete ''clear_output'' kw2"
    by (rule delete_append)
  have m2: "map_of (AList.delete ''clear_output'' (kw1 @ (n, v) # kw2)) ''__manual'' =
        map_of (AList.delete ''clear_output'' (kw1 @ kw2)) ''__manual''"
    unfolding d1 d2 using assms(5) by (rule map_of_inserted)
  define c where "c = AList.delete ''clear_output'' (kw1 @ (n, v) # kw2)"
  define c' where "c' = AList.delete ''clear_output'' (kw1 @ kw2)"
  have fa': "find_abbreviations f (AList.delete ''__manual'' c) =
        find_abbreviations f (AList.delete ''__manual'' c')"
    using fa by (simp only: resolver_kwargs_def c_def c'_def)
  have m2': "map_of c ''__manual'' = map_of c' ''__manual''"
    using m2 by (simp only: c_def c'_def)
  have "interactive_init tk f (kw1 @ (n, v) # kw2) =
      (case find_abbreviations f (AList.delete ''__manual'' c) of
         Inl e \<Rightarrow> (Inl e, [])
       | Inr new_kwargs \<Rightarrow>
      (case (if f_argspec f then f_getcallargs f (callargs_of new_kwargs) else None) of
         Some e \<Rightarrow> (Inl e, [])
       | None \<Rightarrow>
      (case widgets_from_abbreviations tk new_kwargs of
         (Inl e, made) \<Rightarrow> (Inl e, map ChildWidget made)
       | (Inr ws, made) \<Rightarrow>
           let manual = (case map_of c ''__manual'' of Some v \<Rightarrow> v | None \<Rightarrow> PNum (NBool False));
               clear = (case map_of (kw1 @ (n, v) # kw2) ''clear_output'' of
                          Some v \<Rightarrow> v | None \<Rightarrow> PNum (NBool True));
               c = map ChildWidget (filter is_DOMWidget ws);
               mb = (if truthy manual
                     then Some \<lparr>b_description = ''Run '' @ f_name f, b_disabled = False\<rparr>
                     else None);
               extra = (case mb of Some b \<Rightarrow> [ChildButton b] | None \<Rightarrow> []) @ [ChildOutput]
           in (Inr \<lparr>self_result = PNone, self_args = [], self_kwargs = [], self_f = f,
                    self_clear_output = clear, self_manual = manual,
                    self_kwargs_widgets = ws, self_manual_button = mb,
                    self_children = c @ extra\<rparr>,
               map ChildWidget made @ extra))))"
    unfolding interactive_init_def pop_default_def prod.case c_def Let_def by (rule refl)
  also have "\<dots> =
      (case find_abbreviations f (AList.delete ''__manual'' c') of
         Inl e \<Rightarrow> (Inl e, [])
       | Inr new_kwargs \<Rightarrow>
      (case (if f_argspec f then f_getcallargs f (callargs_of new_kwargs) else None) of
         Some e \<Rightarrow> (Inl e, [])
       | None \<Rightarrow>
      (case widgets_from_abbreviations tk new_kwargs of
         (Inl e, made) \<Rightarrow> (Inl e, map ChildWidget made)
       | (Inr ws, made) \<Rightarrow>
           let manual = (case map_of c' ''__manual'' of Some v \<Rightarrow> v | None \<Rightarrow> PNum (NBool False));
               clear = (case map_of (kw1 @ kw2) ''clear_output'' of
                          Some v \<Rightarrow> v | None \<Rightarrow> PNum (NBool True));
               c = map ChildWidget (filter is_DOMWidget ws);
               mb = (if truthy manual
                     then Some \<lparr>b_description = ''Run '' @ f_name f, b_disabled = False\<rparr>
                     else None);
               extra = (case mb of Some b \<Rightarrow> [ChildButton b] | None \<Rightarrow> []) @ [ChildOutput]
           in (Inr \<lparr>self_result = PNone, self_args = [], self_kwargs = [], self_f = f,
                    self_clear_output = clear, self_manual = manual,
                    self_kwargs_widgets = ws, self_manual_button = mb,
                    self_children = c @ extra\<rparr>,
               map ChildWidget made @ extra))))"
    by (simp only: fa' m2' m)
  also have "\<dots> = interactive_init tk f (kw1 @ kw2)"
    unfolding interactive_init_def pop_default_def prod.case c'_def Let_def by (rule refl)
  finally show ?thesis .
qed

lemma init_binds_declared_names:
  assumes "f_signature f = Some ps"
    and "\<forall>q\<in>set ps. param_kind q \<noteq> VAR_KEYWORD"
    and "interactive_init tk f kw = (Inr s, made)"
  shows "kwarg_names (self_kwargs_widgets s) \<subseteq> param_name ` set ps"
proof -
  from interactive_init_Inr [OF assms(3)] obtain ts where
    ts: "find_abbreviations f (resolver_kwargs kw) = Inr ts"
    "map w_kwarg (self_kwargs_widgets s) = map (\<lambda>t. Some (fst t)) ts"
    by blast
  from ts(1) assms(1) have "find_abbreviations_loop ps (resolver_kwargs kw) [] = Inr ts"
    by (simp add: find_abbreviations_def)
  from loop_result_declared [OF assms(2) this] obtain ts' where
    "ts = [] @ ts'" "fst ` set ts' \<subseteq> param_name ` set ps"
    by blast
  then have "fst ` set ts \<subseteq> param_name ` set ps" by simp
  with kwarg_names_of_triples [OF ts(2)] show ?thesis by simp
qed

text \<open>
  C10. For an inspectable function without a variadic-keyword parameter, an override
  under a name that is no parameter's (and is not one of the two option keys of
  \<open>__init__\<close>) changes nothing: setup does exactly what it does without the
  override, so it raises no error on its account; no control of a container it returns
  is bound to that name; and no call of the target function, in any later state of the
  container whose controls are bound to the same names, passes it.
\<close>

theorem unknown_override_dropped:
  assumes "f_signature f = Some ps"
    and "\<forall>q\<in>set ps. param_kind q \<noteq> VAR_KEYWORD"
    and "n \<notin> param_name ` set ps"
    and "n \<noteq> ''clear_output''" and "n \<noteq> ''__manual''"
  shows "interactive_init tk f (kw1 @ (n, v) # kw2) = interactive_init tk f (kw1 @ kw2)
       \<and> (\<forall>s made. interactive_init tk f (kw1 @ (n, v) # kw2) = (Inr s, made) \<longrightarrow>
            n \<notin> kwarg_names (self_kwargs_widgets s)
          \<and> (\<forall>s' kw. kwarg_names (self_kwargs_widgets s') = kwarg_names (self_kwargs_widgets s)
                \<and> Invoke kw \<in> set (events_of (call_f tk s')) \<longrightarrow> n \<notin> fst ` set kw))"
proof (intro conjI allI impI)
  show "interactive_init tk f (kw1 @ (n, v) # kw2) = interactive_init tk f (kw1 @ kw2)"
    by (rule init_ignores_unknown [OF assms])
next
  fix s made
  assume init: "interactive_init tk f (kw1 @ (n, v) # kw2) = (Inr s, made)"
  from init_binds_declared_names [OF assms(1,2) init] assms(3)
  show n: "n \<notin> kwarg_names (self_kwargs_widgets s)" by blast
  fix s' kw
  assume a: "kwarg_names (self_kwargs_widgets s') = kwarg_names (self_kwargs_widgets s)
          \<and> Invoke kw \<in> set (events_of (call_f tk s'))"
  then have "fst ` set kw \<subseteq> kwarg_names (self_kwargs_widgets s')"
    using call_f_passes_kwarg_names [of kw tk s'] by blast
  with a n show "n \<notin> fst ` set kw" by blast
qed

theorem unknown_override_dropped_witness:
  "f_signature show_x = Some [positional ''x'' None (Some (PNum (NInt 5)))]
   \<and> ''zzz'' \<notin> param_name ` set [positional ''x'' None (Some (PNum (NInt 5)))]
   \<and> interactive_init spec_toolkit show_x ([] @ (''zzz'', PStr ''q'') # []) =
       interactive_init spec_toolkit show_x ([] @ [])"
proof -
  have s: "f_signature show_x = Some [positional ''x'' None (Some (PNum (NInt 5)))]"
    by (simp add: show_x_def def_function_def)
  have k: "\<forall>q\<in>set [positional ''x'' None (Some (PNum (NInt 5)))]. param_kind q \<noteq> VAR_KEYWORD"
    by (simp add: positional_def)
  have n: "''zzz'' \<notin> param_name ` set [positional ''x'' None (Some (PNum (NInt 5)))]"
    by (simp add: positional_def)
  have r: "''zzz'' \<noteq> ''clear_output''" "''zzz'' \<noteq> ''__manual''"
    by simp_all
  from unknown_override_dropped [OF s k n r, of spec_toolkit "[]" "PStr ''q''" "[]"] s n
  show ?thesis by blast
qed


section \<open>Running the callback\<close>

lemma set_disabled_twice: "set_disabled d' (set_disabled d s) = set_disabled d' s"
  by (cases "self_manual_button s") (simp_all add: set_disabled_def)

lemma set_disabled_fields:
  "self_manual (set_disabled d s) = self_manual s
   \<and> self_kwargs_widgets (set_disabled d s) = self_kwargs_widgets s
   \<and> self_kwargs (set_disabled d s) = self_kwargs s
   \<and> self_f (set_disabled d s) = self_f s
   \<and> self_clear_output (set_disabled d s) = self_clear_output s
   \<and> self_manual_button (set_disabled d s) =
       map_option (\<lambda>b. b\<lparr>b_disabled := d\<rparr>) (self_manual_button s)"
  by (simp add: set_disabled_def)








text \<open>The function is never reached when one of the controls is a \<open>fixed\<close>.\<close>

lemma collect_values_fixed:
  assumes "w \<in> set ws" and "w_cls w = Fixed"
  shows "\<exists>e. fst (collect_values tk ws kw) = Some e"
  using assms
proof (induction ws arbitrary: kw)
  case Nil
  then show ?case by simp
next
  case (Cons x xs)
  show ?case
  proof (cases "x = w")
    case True
    with Cons.prems show ?thesis by (simp add: get_interact_value_def)
  next
    case False
    with Cons.prems have "w \<in> set xs" by simp
    from Cons.IH [OF this Cons.prems(2)] show ?thesis
      by (auto split: sum.split option.split)
  qed
qed

lemma fixed_never_invoked:
  assumes "w \<in> set (self_kwargs_widgets s)" and "w_cls w = Fixed"
  shows "Invoke kw \<notin> set (events_of (call_f tk s))"
proof
  assume "Invoke kw \<in> set (events_of (call_f tk s))"
  from call_f_Invoke [OF this] collect_values_fixed [OF assms, of tk "[]"]
  show False by simp
qed

text \<open>The factory returns a \<open>fixed\<close> as it is, and a \<open>fixed\<close> is no
  \<open>DOMWidget\<close>, so it is not among the children.\<close>

lemma fixed_returned_as_is:
  "widget_from_abbrev tk (fixed v) dflt =
     Inr (Some (Widget Fixed (Some v) None None None None [] None))"
  by (simp add: widget_from_abbrev_def fixed_def)

lemma fixed_not_displayed: "w_cls w = Fixed \<Longrightarrow> \<not> is_DOMWidget w"
  by simp


section \<open>The callback on concrete containers\<close>










text \<open>
  C1 fails in its third part. For \<open>def ident(a): return a\<close> and the override
  \<open>a=fixed(5)\<close> setup succeeds, with the \<open>fixed\<close> bound to \<open>a\<close> and not among
  the children; but a run of the callback asks the \<open>fixed\<close> for
  \<open>get_interact_value\<close>, which the class does not have: the \<open>AttributeError\<close> is
  reported and the function is not called, so the value 5 is never passed.
\<close>

theorem fixed_value_never_passed:
  "(case interactive_init spec_toolkit ident_a [(''a'', fixed (PNum (NInt 5)))] of
      (Inr s, made) \<Rightarrow>
        self_kwargs_widgets s =
          [Widget Fixed (Some (PNum (NInt 5))) None None None None ''a'' (Some ''a'')]
        \<and> self_children s = [ChildOutput]
        \<and> made = [ChildOutput]
        \<and> propagated (call_f spec_toolkit s) = None
        \<and> events_of (call_f spec_toolkit s) =
            [ReportException (AttributeError ''get_interact_value'')]
    | (Inl e, made) \<Rightarrow> False)"
proof -
  have fa: "find_abbreviations ident_a [(''a'', fixed (PNum (NInt 5)))] =
      Inr [(''a'', fixed (PNum (NInt 5)), None)]"
    by (simp add: find_abbreviations_def ident_a_def def_function_def positional_def
        yield_abbreviations_for_parameter_def Let_def)
  have g: "f_argspec ident_a"
    "f_getcallargs ident_a (callargs_of [(''a'', fixed (PNum (NInt 5)), None)]) = None"
    by (simp_all add: ident_a_def def_function_def callargs_of_def getcallargs_def
        positional_def takes_abbreviation_def)
  have w: "widgets_from_abbreviations spec_toolkit [(''a'', fixed (PNum (NInt 5)), None)] =
      (Inr [Widget Fixed (Some (PNum (NInt 5))) None None None None ''a'' (Some ''a'')], [])"
    by (simp add: widgets_from_abbreviations_def fixed_returned_as_is)
      (simp add: fixed_def)
  let ?s = "\<lparr>self_result = PNone, self_args = [], self_kwargs = [], self_f = ident_a,
             self_clear_output = PNum (NBool True), self_manual = PNum (NBool False),
             self_kwargs_widgets =
               [Widget Fixed (Some (PNum (NInt 5))) None None None None ''a'' (Some ''a'')],
             self_manual_button = None, self_children = [ChildOutput]\<rparr>"
  have i: "interactive_init spec_toolkit ident_a [(''a'', fixed (PNum (NInt 5)))] =
      (Inr ?s, [ChildOutput])"
    by (simp add: interactive_init_def pop_default_def fa g w Let_def)
  have c: "call_f spec_toolkit ?s =
      (None, [ReportException (AttributeError ''get_interact_value'')], ?s)"
    by (simp add: call_f_def call_f_try_def get_interact_value_def)
  show ?thesis
    by (simp add: i c propagated_def events_of_def)
qed


end
